theory Spec2Isabelle
  imports Complex_Main "HOL-Library.AList"
begin

section \<open>Python values, exceptions and outcomes\<close>

text \<open>
  The module \<^verbatim>\<open>valutatrade_hub/core/models.py\<close> defines three classes: \<^verbatim>\<open>User\<close>,
  \<^verbatim>\<open>Wallet\<close> and \<^verbatim>\<open>Portfolio\<close>. Their methods are embedded as functions on records.

  Exceptions are values of \<open>error\<close>. \<^verbatim>\<open>InvalidOperation\<close> is
  \<^verbatim>\<open>decimal.InvalidOperation\<close>, a subclass of \<^verbatim>\<open>ArithmeticError\<close> (neither a
  \<^verbatim>\<open>ValueError\<close> nor a \<^verbatim>\<open>TypeError\<close>).
\<close>

datatype error = ValueError | TypeError | AttributeError | KeyError | InvalidOperation
  | OverflowError | ZeroDivisionError | NameError

text \<open>
  A method that mutates its object either returns, or raises with the object in the state it
  had reached when the exception left the method. Both cases carry the state, so that
  "a failed call changes nothing" is a statement about the model and not a property of the
  result type.
\<close>

datatype 's outcome = Returned 's | Raised error 's

fun state_of :: "'s outcome \<Rightarrow> 's" where
  "state_of (Returned s) = s"
| "state_of (Raised e s) = s"

text \<open>
  The dynamically typed values that reach the methods: \<^verbatim>\<open>int\<close>, \<^verbatim>\<open>float\<close>,
  \<^verbatim>\<open>decimal.Decimal\<close> and \<^verbatim>\<open>str\<close>. A finite float and a finite Decimal are
  modelled by the rational number they denote. The infinities and NaN of both types are
  outside the model, and with them a float operation whose result leaves the finite range;
  so is \<^verbatim>\<open>bool\<close>, the subclass of \<^verbatim>\<open>int\<close>. A string is a list of code points below
  256.
\<close>

datatype pyval = VInt int | VFloat rat | VDecimal rat | VStr string

text \<open>
  A dictionary with string keys, in insertion order; \<^verbatim>\<open>data[key]\<close> raises
  \<^verbatim>\<open>KeyError\<close> on a missing key.
\<close>

type_synonym pydict = "(string \<times> pyval) list"

definition getitem :: "pydict \<Rightarrow> string \<Rightarrow> error + pyval" where
  "getitem data k = (case map_of data k of None \<Rightarrow> Inl KeyError | Some v \<Rightarrow> Inr v)"

section \<open>Python's arithmetic\<close>

text \<open>
  The methods compute in three arithmetics: exact integers, binary floating point
  (\<^verbatim>\<open>float\<close>, IEEE 754 binary64, round to nearest, ties to even) and decimal floating
  point (\<^verbatim>\<open>decimal.Decimal\<close> under the default context: 28 significant digits,
  \<^verbatim>\<open>ROUND_HALF_EVEN\<close>). Both floating-point arithmetics compute the exact result and
  round it, which is what the definitions below do on rational numbers.
\<close>

definition round_half_even :: "rat \<Rightarrow> int" where
  "round_half_even q =
     (let f = \<lfloor>q\<rfloor>; d = q - of_int f
      in if d < 1 / 2 then f else if 1 / 2 < d then f + 1 else if even f then f else f + 1)"

definition pow :: "int \<Rightarrow> int \<Rightarrow> rat" where
  "pow b e = (if 0 \<le> e then of_int b ^ nat e else 1 / of_int b ^ nat (- e))"

text \<open>The number of digits of \<open>n\<close> in base \<open>b\<close>.\<close>

function digits :: "int \<Rightarrow> int \<Rightarrow> int" where
  "digits b n = (if n \<le> 0 \<or> b \<le> 1 then 0 else 1 + digits b (n div b))"
  by pat_completeness auto
termination
  by (relation "measure (\<lambda>(b, n). nat n)") (auto intro!: int_div_less_self)

declare digits.simps [simp del]

text \<open>For \<open>0 < x\<close>, the exponent \<open>e\<close> with \<open>b ^ e \<le> x < b ^ (e + 1)\<close>.\<close>

definition ilog :: "int \<Rightarrow> rat \<Rightarrow> int" where
  "ilog b x = (if 1 \<le> x then digits b \<lfloor>x\<rfloor> - 1 else - digits b (\<lceil>1 / x\<rceil> - 1))"

text \<open>
  The binary64 number nearest to \<open>x\<close>: 53 significant bits, and multiples of \<open>2 ^ - 1074\<close>
  below \<open>2 ^ - 1022\<close> (the subnormal numbers). A result of magnitude \<open>2 ^ 1024\<close> or more
  is \<^verbatim>\<open>inf\<close> in Python; \<open>fl_finite\<close> says that it is not.
\<close>

definition fl_round :: "rat \<Rightarrow> rat" where
  "fl_round x =
     (if x = 0 then 0
      else let e = max (ilog 2 \<bar>x\<bar>) (- 1022); u = pow 2 (e - 52)
           in sgn x * of_int (round_half_even (\<bar>x\<bar> / u)) * u)"

definition fl_finite :: "rat \<Rightarrow> bool" where
  "fl_finite x \<longleftrightarrow> \<bar>x\<bar> < 2 ^ 1024"

text \<open>\<open>x\<close> rounded to \<open>k\<close> significant decimal digits.\<close>

definition round_sig :: "nat \<Rightarrow> rat \<Rightarrow> rat" where
  "round_sig k x =
     (if x = 0 then 0
      else let u = pow 10 (ilog 10 \<bar>x\<bar> - int k + 1)
           in sgn x * of_int (round_half_even (\<bar>x\<bar> / u)) * u)"

text \<open>
  \<^verbatim>\<open>str(x)\<close> of a float prints the shortest decimal numeral that reads back as \<open>x\<close>;
  \<open>fl_repr x\<close> is the number that numeral denotes, which is what
  \<^verbatim>\<open>Decimal(str(x))\<close> holds: \<open>x\<close> rounded to the least number of significant digits
  at which the rounded number reads back as \<open>x\<close>. Seventeen digits always suffice for a
  binary64 number.
\<close>

definition fl_repr :: "rat \<Rightarrow> rat" where
  "fl_repr x =
     (case find (\<lambda>k. fl_round (round_sig k x) = x)
             [1, 2, 3, 4, 5, 6, 7, 8, 9, 10, 11, 12, 13, 14, 15, 16, 17] of
        Some k \<Rightarrow> round_sig k x
      | None \<Rightarrow> x)"

text \<open>\<^verbatim>\<open>Decimal + Decimal\<close> and \<^verbatim>\<open>Decimal - Decimal\<close> under the default context.\<close>

definition dec_add :: "rat \<Rightarrow> rat \<Rightarrow> rat" where
  "dec_add a b = round_sig 28 (a + b)"

definition dec_sub :: "rat \<Rightarrow> rat \<Rightarrow> rat" where
  "dec_sub a b = round_sig 28 (a - b)"

text \<open>
  \<^verbatim>\<open>float(n)\<close> for an int, as the mixed product \<^verbatim>\<open>int * float\<close> computes it first:
  \<^verbatim>\<open>OverflowError\<close> when \<open>n\<close> does not round to a finite float.
\<close>

definition float_of_int :: "int \<Rightarrow> error + rat" where
  "float_of_int n =
     (let x = fl_round (of_int n) in if fl_finite x then Inr x else Inl OverflowError)"

text \<open>
  \<^verbatim>\<open>v * r\<close> for a float \<open>r\<close>; the product is a float. A Decimal does not combine with
  a float (both operands return \<^verbatim>\<open>NotImplemented\<close>, which ends in \<^verbatim>\<open>TypeError\<close>), and
  neither does a string.
\<close>

fun mul_float :: "pyval \<Rightarrow> rat \<Rightarrow> error + rat" where
  "mul_float (VInt n) r =
     (case float_of_int n of Inl e \<Rightarrow> Inl e | Inr x \<Rightarrow> Inr (fl_round (x * r)))"
| "mul_float (VFloat x) r = Inr (fl_round (x * r))"
| "mul_float (VDecimal d) r = Inl TypeError"
| "mul_float (VStr s) r = Inl TypeError"

text \<open>\<^verbatim>\<open>x / r\<close> and \<^verbatim>\<open>x + y\<close> on floats.\<close>

definition fl_div :: "rat \<Rightarrow> rat \<Rightarrow> error + rat" where
  "fl_div x r = (if r = 0 then Inl ZeroDivisionError else Inr (fl_round (x / r)))"

definition fl_add :: "rat \<Rightarrow> rat \<Rightarrow> rat" where
  "fl_add x y = fl_round (x + y)"

text \<open>
  Comparisons of a value with an int or a Decimal are exact for the three numeric types;
  a string does not compare with a number.
\<close>

fun number :: "pyval \<Rightarrow> rat option" where
  "number (VInt n) = Some (of_int n)"
| "number (VFloat x) = Some x"
| "number (VDecimal d) = Some d"
| "number (VStr s) = None"

definition le_zero :: "pyval \<Rightarrow> error + bool" where
  "le_zero v = (case number v of None \<Rightarrow> Inl TypeError | Some x \<Rightarrow> Inr (x \<le> 0))"

definition gt_decimal :: "pyval \<Rightarrow> rat \<Rightarrow> error + bool" where
  "gt_decimal v d = (case number v of None \<Rightarrow> Inl TypeError | Some x \<Rightarrow> Inr (d < x))"

text \<open>\<^verbatim>\<open>isinstance(amount, (float, int))\<close>.\<close>

fun is_float_or_int :: "pyval \<Rightarrow> bool" where
  "is_float_or_int (VInt n) = True"
| "is_float_or_int (VFloat x) = True"
| "is_float_or_int (VDecimal d) = False"
| "is_float_or_int (VStr s) = False"

subsection \<open>Reading a Decimal from a string\<close>

text \<open>
  \<^verbatim>\<open>Decimal(s)\<close> for a string: surrounding whitespace and underscores are dropped, then
  the numeral is an optional sign, digits with an optional point, and an optional exponent.
  Anything else raises \<^verbatim>\<open>decimal.InvalidOperation\<close>. (The spellings of the infinities and
  of NaN are numerals for Python; they denote no number of this model.)
\<close>

definition is_digit :: "char \<Rightarrow> bool" where
  "is_digit c \<longleftrightarrow> c \<in> set ''0123456789''"

text \<open>The value of a digit is its place in the row of the ten digits.\<close>

definition digit_value :: "char \<Rightarrow> nat" where
  "digit_value c = length (takeWhile (\<lambda>d. d \<noteq> c) ''0123456789'')"

definition digits_value :: "string \<Rightarrow> nat" where
  "digits_value s = foldl (\<lambda>n c. 10 * n + digit_value c) 0 s"

definition is_space :: "char \<Rightarrow> bool" where
  "is_space c \<longleftrightarrow> c \<in> {CHR '' '', CHR 0x09, CHR 0x0A, CHR 0x0B, CHR 0x0C, CHR 0x0D}"

definition strip :: "string \<Rightarrow> string" where
  "strip s = rev (dropWhile is_space (rev (dropWhile is_space s)))"

definition split_sign :: "string \<Rightarrow> bool \<times> string" where
  "split_sign s =
     (case s of
        [] \<Rightarrow> (False, [])
      | c # r \<Rightarrow>
          if c = CHR ''-'' then (True, r) else if c = CHR ''+'' then (False, r) else (False, s))"

definition exponent_of :: "string \<Rightarrow> int option" where
  "exponent_of ex =
     (case ex of
        [] \<Rightarrow> Some 0
      | c # r \<Rightarrow>
          (let (neg, ds) = split_sign r
           in if ds = [] \<or> \<not> list_all is_digit ds then None
              else Some (if neg then - int (digits_value ds) else int (digits_value ds))))"

definition decimal_of_str :: "string \<Rightarrow> rat option" where
  "decimal_of_str s =
     (let (neg, body) = split_sign (filter (\<lambda>c. c \<noteq> CHR ''_'') (strip s));
          is_e = (\<lambda>c. c = CHR ''e'' \<or> c = CHR ''E'');
          mant = takeWhile (\<lambda>c. \<not> is_e c) body;
          ex = dropWhile (\<lambda>c. \<not> is_e c) body;
          ip = takeWhile (\<lambda>c. c \<noteq> CHR ''.'') mant;
          fp = drop 1 (dropWhile (\<lambda>c. c \<noteq> CHR ''.'') mant)
      in if ip @ fp = [] \<or> \<not> list_all is_digit (ip @ fp) then None
         else case exponent_of ex of
                None \<Rightarrow> None
              | Some e \<Rightarrow>
                  Some ((if neg then - 1 else 1) * of_nat (digits_value (ip @ fp))
                        * pow 10 (e - int (length fp))))"

text \<open>
  \<^verbatim>\<open>Decimal(str(value))\<close>: exact for an int and for a Decimal, the shortest numeral of a
  float, the parsed numeral of a string.
\<close>

fun to_decimal :: "pyval \<Rightarrow> error + rat" where
  "to_decimal (VInt n) = Inr (of_int n)"
| "to_decimal (VFloat x) = Inr (fl_repr x)"
| "to_decimal (VDecimal d) = Inr d"
| "to_decimal (VStr s) =
     (case decimal_of_str s of None \<Rightarrow> Inl InvalidOperation | Some d \<Rightarrow> Inr d)"

section \<open>Wallet\<close>

text \<open>The attribute \<^verbatim>\<open>_balance\<close> always holds a Decimal.\<close>

record wallet =
  currency_code :: string
  balance :: rat

text \<open>\<^verbatim>\<open>Wallet.__init__\<close> (lines 108-110) stores \<^verbatim>\<open>Decimal(str(balance))\<close> as it is.\<close>

definition Wallet :: "string \<Rightarrow> pyval \<Rightarrow> error + wallet" where
  "Wallet code bal =
     (case to_decimal bal of
        Inl e \<Rightarrow> Inl e
      | Inr d \<Rightarrow> Inr \<lparr>currency_code = code, balance = d\<rparr>)"

text \<open>
  The setter of the property \<^verbatim>\<open>balance\<close> (lines 117-128). Its handler catches
  \<^verbatim>\<open>ValueError\<close> and \<^verbatim>\<open>TypeError\<close> only; any other exception of the conversion leaves
  the setter as it is.
\<close>

definition balance_setter :: "wallet \<Rightarrow> pyval \<Rightarrow> wallet outcome" where
  "balance_setter w v =
     (case to_decimal v of
        Inl e \<Rightarrow> if e = ValueError \<or> e = TypeError then Raised ValueError w else Raised e w
      | Inr d \<Rightarrow> if d < 0 then Raised ValueError w else Returned (w\<lparr>balance := d\<rparr>))"

text \<open>
  \<^verbatim>\<open>Wallet.deposit\<close> (lines 130-137). The statement
  \<^verbatim>\<open>self.balance += Decimal(str(amount))\<close> reads the balance, adds in Decimal arithmetic
  and hands the sum to the setter.
\<close>

definition deposit :: "wallet \<Rightarrow> pyval \<Rightarrow> wallet outcome" where
  "deposit w amount =
     (if \<not> is_float_or_int amount then Raised TypeError w
      else case le_zero amount of
             Inl e \<Rightarrow> Raised e w
           | Inr True \<Rightarrow> Raised ValueError w
           | Inr False \<Rightarrow>
               (case to_decimal amount of
                  Inl e \<Rightarrow> Raised e w
                | Inr d \<Rightarrow> balance_setter w (VDecimal (dec_add (balance w) d))))"

text \<open>\<^verbatim>\<open>Wallet.withdraw\<close> (lines 139-149).\<close>

definition withdraw :: "wallet \<Rightarrow> pyval \<Rightarrow> wallet outcome" where
  "withdraw w amount =
     (if \<not> is_float_or_int amount then Raised TypeError w
      else case le_zero amount of
             Inl e \<Rightarrow> Raised e w
           | Inr True \<Rightarrow> Raised ValueError w
           | Inr False \<Rightarrow>
               (case gt_decimal amount (balance w) of
                  Inl e \<Rightarrow> Raised e w
                | Inr True \<Rightarrow> Raised ValueError w
                | Inr False \<Rightarrow>
                    (case to_decimal amount of
                       Inl e \<Rightarrow> Raised e w
                     | Inr d \<Rightarrow> balance_setter w (VDecimal (dec_sub (balance w) d)))))"

text \<open>A sequence of calls on one wallet; it ends at the first call that raises.\<close>

datatype wallet_call = Deposit pyval | Withdraw pyval

fun call :: "wallet \<Rightarrow> wallet_call \<Rightarrow> wallet outcome" where
  "call w (Deposit a) = deposit w a"
| "call w (Withdraw a) = withdraw w a"

fun calls :: "wallet \<Rightarrow> wallet_call list \<Rightarrow> wallet outcome" where
  "calls w [] = Returned w"
| "calls w (c # cs) =
     (case call w c of Returned w' \<Rightarrow> calls w' cs | Raised e w' \<Rightarrow> Raised e w')"

text \<open>
  \<^verbatim>\<open>Wallet.get_balance_info\<close> and \<^verbatim>\<open>Wallet.to_dict\<close> (lines 151-163);
  \<^verbatim>\<open>float(self.balance)\<close> is the float nearest to the balance.
\<close>

definition get_balance_info :: "wallet \<Rightarrow> pydict" where
  "get_balance_info w =
     [(''currency_code'', VStr (currency_code w)), (''balance'', VFloat (fl_round (balance w)))]"

definition Wallet_to_dict :: "wallet \<Rightarrow> pydict" where
  "Wallet_to_dict w =
     [(''currency_code'', VStr (currency_code w)), (''balance'', VFloat (fl_round (balance w)))]"

text \<open>
  \<^verbatim>\<open>Wallet.from_dict\<close> (lines 165-171). The wallets of the model have a string for
  their code, so the model refuses a dictionary that holds anything else there.
\<close>

definition Wallet_from_dict :: "pydict \<Rightarrow> error + wallet" where
  "Wallet_from_dict data =
     (case getitem data ''currency_code'' of
        Inl e \<Rightarrow> Inl e
      | Inr c \<Rightarrow>
          (case getitem data ''balance'' of
             Inl e \<Rightarrow> Inl e
           | Inr b \<Rightarrow> (case c of VStr code \<Rightarrow> Wallet code b | _ \<Rightarrow> Inl TypeError)))"

section \<open>Portfolio\<close>

text \<open>
  The class attribute \<^verbatim>\<open>EXCHANGE_RATES\<close> (lines 188-193); each literal denotes the nearest
  float.
\<close>

definition EXCHANGE_RATES :: "(string \<times> rat) list" where
  "EXCHANGE_RATES =
     [(''USD'', fl_round 1), (''EUR'', fl_round (11 / 10)), (''BTC'', fl_round 40000),
      (''RUB'', fl_round (12 / 1000))]"

text \<open>\<^verbatim>\<open>self.EXCHANGE_RATES[code]\<close>.\<close>

definition rate :: "string \<Rightarrow> error + rat" where
  "rate code = (case map_of EXCHANGE_RATES code of None \<Rightarrow> Inl KeyError | Some r \<Rightarrow> Inr r)"

text \<open>
  The dictionary \<^verbatim>\<open>_wallets\<close> keeps its keys in insertion order. Every key holds a
  \<^verbatim>\<open>Wallet\<close> object of its own (\<^verbatim>\<open>add_currency\<close> is the only place that stores one),
  so a wallet object is identified by its key, and two references
  \<^verbatim>\<open>get_wallet(a)\<close> and \<^verbatim>\<open>get_wallet(b)\<close> are the same object exactly when \<open>a = b\<close>.
\<close>

record portfolio =
  owner_id :: int
  wallets :: "(string \<times> wallet) list"

definition Portfolio :: "int \<Rightarrow> portfolio" where
  "Portfolio uid = \<lparr>owner_id = uid, wallets = []\<rparr>"

text \<open>\<^verbatim>\<open>Portfolio.get_wallet\<close> (lines 218-220).\<close>

definition get_wallet :: "portfolio \<Rightarrow> string \<Rightarrow> wallet option" where
  "get_wallet p code = map_of (wallets p) code"

text \<open>The state of the portfolio once the wallet object under \<open>code\<close> has become \<open>w\<close>.\<close>

definition put_wallet :: "portfolio \<Rightarrow> string \<Rightarrow> wallet \<Rightarrow> portfolio" where
  "put_wallet p code w = p\<lparr>wallets := AList.update code w (wallets p)\<rparr>"

text \<open>
  \<^verbatim>\<open>Portfolio.add_currency\<close> (lines 208-216); \<^verbatim>\<open>Wallet(currency_code)\<close> takes the
  default balance \<^verbatim>\<open>0.0\<close>.
\<close>

definition add_currency :: "portfolio \<Rightarrow> string \<Rightarrow> portfolio outcome" where
  "add_currency p code =
     (if map_of (wallets p) code \<noteq> None then Raised ValueError p
      else if map_of EXCHANGE_RATES code = None then Raised ValueError p
      else case Wallet code (VFloat 0) of
             Inl e \<Rightarrow> Raised e p
           | Inr w \<Rightarrow> Returned (put_wallet p code w))"

text \<open>
  \<^verbatim>\<open>Portfolio.get_total_value\<close> (lines 222-239). The loop runs over the wallets in the
  order of the dictionary. The product
  \<^verbatim>\<open>wallet.balance * currency_rate\<close> has a Decimal on the left and a float on the right.
\<close>

fun total_loop :: "string \<Rightarrow> rat \<Rightarrow> wallet list \<Rightarrow> error + rat" where
  "total_loop base total_value [] = Inr total_value"
| "total_loop base total_value (w # ws) =
     (case (map_of EXCHANGE_RATES (currency_code w), map_of EXCHANGE_RATES base) of
        (Some currency_rate, Some base_rate) \<Rightarrow>
          (case mul_float (VDecimal (balance w)) currency_rate of
             Inl e \<Rightarrow> Inl e
           | Inr x \<Rightarrow>
               (case fl_div x base_rate of
                  Inl e \<Rightarrow> Inl e
                | Inr value_in_base \<Rightarrow> total_loop base (fl_add total_value value_in_base) ws))
      | _ \<Rightarrow> total_loop base total_value ws)"

definition get_total_value :: "portfolio \<Rightarrow> string \<Rightarrow> error + rat" where
  "get_total_value p base =
     (if map_of EXCHANGE_RATES base = None then Inl ValueError
      else total_loop base 0 (map snd (wallets p)))"

text \<open>The expression \<^verbatim>\<open>(amount * from_rate) / to_rate\<close> of line 256.\<close>

definition convert :: "pyval \<Rightarrow> rat \<Rightarrow> rat \<Rightarrow> error + rat" where
  "convert amount from_rate to_rate =
     (case mul_float amount from_rate of Inl e \<Rightarrow> Inl e | Inr x \<Rightarrow> fl_div x to_rate)"

text \<open>
  \<^verbatim>\<open>Portfolio.buy_currency\<close> (lines 241-258). Both wallets are looked up before the
  withdrawal; when the two codes are equal the two references are one object, so the deposit
  then acts on the wallet as the withdrawal left it. An exception after the withdrawal
  leaves the portfolio with the source wallet debited.
\<close>

definition buy_currency :: "portfolio \<Rightarrow> pyval \<Rightarrow> string \<Rightarrow> string \<Rightarrow> portfolio outcome" where
  "buy_currency p amount from_currency to_currency =
     (case le_zero amount of
        Inl e \<Rightarrow> Raised e p
      | Inr True \<Rightarrow> Raised ValueError p
      | Inr False \<Rightarrow>
          (case (get_wallet p from_currency, get_wallet p to_currency) of
             (Some from_wallet, Some to_wallet) \<Rightarrow>
               (case withdraw from_wallet amount of
                  Raised e w \<Rightarrow> Raised e (put_wallet p from_currency w)
                | Returned w \<Rightarrow>
                    (let p1 = put_wallet p from_currency w;
                         to_now = (if to_currency = from_currency then w else to_wallet)
                     in case rate from_currency of
                          Inl e \<Rightarrow> Raised e p1
                        | Inr from_rate \<Rightarrow>
                            (case rate to_currency of
                               Inl e \<Rightarrow> Raised e p1
                             | Inr to_rate \<Rightarrow>
                                 (case convert amount from_rate to_rate of
                                    Inl e \<Rightarrow> Raised e p1
                                  | Inr converted_amount \<Rightarrow>
                                      (case deposit to_now (VFloat converted_amount) of
                                         Raised e w2 \<Rightarrow> Raised e (put_wallet p1 to_currency w2)
                                       | Returned w2 \<Rightarrow>
                                           Returned (put_wallet p1 to_currency w2))))))
           | _ \<Rightarrow> Raised ValueError p))"

text \<open>
  \<^verbatim>\<open>Portfolio.sell_currency\<close> (lines 260-276). The method ends with the lookup of
  \<^verbatim>\<open>from_rate\<close> in line 276, the last line of the file.
\<close>

definition sell_currency :: "portfolio \<Rightarrow> pyval \<Rightarrow> string \<Rightarrow> string \<Rightarrow> portfolio outcome" where
  "sell_currency p amount from_currency to_currency =
     (case le_zero amount of
        Inl e \<Rightarrow> Raised e p
      | Inr True \<Rightarrow> Raised ValueError p
      | Inr False \<Rightarrow>
          (case (get_wallet p from_currency, get_wallet p to_currency) of
             (Some from_wallet, Some to_wallet) \<Rightarrow>
               (case gt_decimal amount (balance from_wallet) of
                  Inl e \<Rightarrow> Raised e p
                | Inr True \<Rightarrow> Raised ValueError p
                | Inr False \<Rightarrow>
                    (case withdraw from_wallet amount of
                       Raised e w \<Rightarrow> Raised e (put_wallet p from_currency w)
                     | Returned w \<Rightarrow>
                         (let p1 = put_wallet p from_currency w
                          in case rate from_currency of
                               Inl e \<Rightarrow> Raised e p1
                             | Inr from_rate \<Rightarrow> Returned p1)))
           | _ \<Rightarrow> Raised ValueError p))"

text \<open>
  What the methods keep true of a portfolio: one entry per code, each wallet filed under its
  own code, every code a key of the rate table, no negative balance.
\<close>

definition portfolio_ok :: "portfolio \<Rightarrow> bool" where
  "portfolio_ok p \<longleftrightarrow>
     distinct (map fst (wallets p)) \<and>
     list_all (\<lambda>(c, w). currency_code w = c \<and> map_of EXCHANGE_RATES c \<noteq> None \<and> 0 \<le> balance w)
       (wallets p)"

section \<open>Strings, UTF-8 and timestamps\<close>

text \<open>\<^verbatim>\<open>str.encode('utf-8')\<close> on code points below 256: one byte below 128, two above.\<close>

definition utf8_char :: "char \<Rightarrow> char list" where
  "utf8_char c =
     (let n = (of_char c :: nat)
      in if n < 128 then [c] else [char_of (192 + n div 64), char_of (128 + n mod 64)])"

definition utf8 :: "string \<Rightarrow> char list" where
  "utf8 s = concat (map utf8_char s)"

text \<open>
  A naive \<^verbatim>\<open>datetime.datetime\<close> (no time zone), as \<^verbatim>\<open>datetime.now()\<close> produces.
  \<^verbatim>\<open>isoformat()\<close> prints \<^verbatim>\<open>YYYY-MM-DDTHH:MM:SS\<close>, followed by \<^verbatim>\<open>.ffffff\<close> when the
  microsecond is not zero.
\<close>

record datetime =
  year :: nat
  month :: nat
  day :: nat
  hour :: nat
  minute :: nat
  second :: nat
  microsecond :: nat

definition digit_char :: "nat \<Rightarrow> char" where
  "digit_char d = ''0123456789'' ! (d mod 10)"

fun zero_padded :: "nat \<Rightarrow> nat \<Rightarrow> string" where
  "zero_padded 0 n = []"
| "zero_padded (Suc k) n = zero_padded k (n div 10) @ [digit_char n]"

definition isoformat :: "datetime \<Rightarrow> string" where
  "isoformat d =
     zero_padded 4 (year d) @ ''-'' @ zero_padded 2 (month d) @ ''-'' @ zero_padded 2 (day d)
     @ ''T'' @ zero_padded 2 (hour d) @ '':'' @ zero_padded 2 (minute d) @ '':''
     @ zero_padded 2 (second d)
     @ (if microsecond d = 0 then [] else ''.'' @ zero_padded 6 (microsecond d))"

section \<open>User\<close>

text \<open>
  The methods are embedded by their bodies. The annotations of their signatures are not
  evaluated (as under the deferred evaluation of annotations).
\<close>

record user =
  user_id :: int
  username :: string
  hashed_password :: string
  salt :: string
  registration_date :: datetime

text \<open>\<^verbatim>\<open>User.get_user_info\<close> (lines 43-49).\<close>

definition get_user_info :: "user \<Rightarrow> pydict" where
  "get_user_info u =
     [(''user_id'', VInt (user_id u)),
      (''username'', VStr (username u)),
      (''registration_date'', VStr (isoformat (registration_date u)))]"

text \<open>The setter of \<^verbatim>\<open>username\<close> (lines 37-41).\<close>

definition username_setter :: "user \<Rightarrow> string \<Rightarrow> user outcome" where
  "username_setter u v = (if v = [] then Raised ValueError u else Returned (u\<lparr>username := v\<rparr>))"

text \<open>
  \<^verbatim>\<open>User._hash_password\<close> (lines 62-68). SHA-256 belongs to \<^verbatim>\<open>hashlib\<close>, not to the
  repository: the function from the bytes to the hexadecimal digest is the parameter
  \<open>sha256\<close> of the three methods that hash.
\<close>

definition hash_password :: "(char list \<Rightarrow> string) \<Rightarrow> user \<Rightarrow> string \<Rightarrow> string" where
  "hash_password sha256 u password = sha256 (utf8 password @ utf8 (salt u))"

text \<open>\<^verbatim>\<open>User.change_password\<close> (lines 51-56) and \<^verbatim>\<open>User.verify_password\<close> (58-60).\<close>

definition change_password :: "(char list \<Rightarrow> string) \<Rightarrow> user \<Rightarrow> string \<Rightarrow> user outcome" where
  "change_password sha256 u new_password =
     (if length new_password < 4 then Raised ValueError u
      else Returned (u\<lparr>hashed_password := hash_password sha256 u new_password\<rparr>))"

definition verify_password :: "(char list \<Rightarrow> string) \<Rightarrow> user \<Rightarrow> string \<Rightarrow> bool" where
  "verify_password sha256 u password \<longleftrightarrow> hash_password sha256 u password = hashed_password u"

text \<open>\<^verbatim>\<open>User.to_dict\<close> (lines 81-89).\<close>

definition User_to_dict :: "user \<Rightarrow> pydict" where
  "User_to_dict u =
     [(''user_id'', VInt (user_id u)),
      (''username'', VStr (username u)),
      (''hashed_password'', VStr (hashed_password u)),
      (''salt'', VStr (salt u)),
      (''registration_date'', VStr (isoformat (registration_date u)))]"

text \<open>
  The global name \<^verbatim>\<open>datetime\<close>. The module starts with eight import statements (lines
  1-8); each binds a global name, a later binding of a name replacing an earlier one. Of the
  objects they bind, the module \<^verbatim>\<open>datetime\<close> and its class \<^verbatim>\<open>datetime.datetime\<close> are
  told apart here, and of their attributes the two that the source reads: the module has an
  attribute \<^verbatim>\<open>datetime\<close> (the class), the class has \<^verbatim>\<open>fromisoformat\<close> and no attribute
  \<^verbatim>\<open>datetime\<close>.
\<close>

datatype pyobj = DatetimeModule | DatetimeClass | FromIsoFormat | OtherObject

datatype import_stmt = Import string | FromImport string string

definition module_imports :: "import_stmt list" where
  "module_imports =
     [Import ''hashlib'', Import ''datetime'', Import ''json'',
      FromImport ''typing'' ''Optional'', FromImport ''typing'' ''Union'',
      FromImport ''decimal'' ''Decimal'', FromImport ''typing'' ''Dict'',
      FromImport ''typing'' ''Optional'', FromImport ''datetime'' ''datetime'']"

fun bind_import :: "(string \<rightharpoonup> pyobj) \<Rightarrow> import_stmt \<Rightarrow> (string \<rightharpoonup> pyobj)" where
  "bind_import g (Import m) =
     g(m \<mapsto> (if m = ''datetime'' then DatetimeModule else OtherObject))"
| "bind_import g (FromImport m n) =
     g(n \<mapsto> (if m = ''datetime'' \<and> n = ''datetime'' then DatetimeClass else OtherObject))"

definition module_globals :: "string \<rightharpoonup> pyobj" where
  "module_globals = foldl bind_import Map.empty module_imports"

definition getattr :: "pyobj \<Rightarrow> string \<Rightarrow> error + pyobj" where
  "getattr obj a =
     (if obj = DatetimeModule \<and> a = ''datetime'' then Inr DatetimeClass
      else if obj = DatetimeClass \<and> a = ''fromisoformat'' then Inr FromIsoFormat
      else Inl AttributeError)"

text \<open>
  \<^verbatim>\<open>User.from_dict\<close> (lines 70-79). The arguments of \<^verbatim>\<open>cls(...)\<close> are evaluated from left
  to right; the last one first evaluates \<^verbatim>\<open>datetime.datetime.fromisoformat\<close> (the global
  name, then two attributes), then its argument, then calls. What \<^verbatim>\<open>fromisoformat\<close> does
  with a string is the parameter \<open>parse\<close>; it wants a string. The users of the model have an
  int for their identifier and strings for the three texts, so the model refuses a dictionary
  that holds anything else there.
\<close>

definition User_from_dict :: "(string \<Rightarrow> error + datetime) \<Rightarrow> pydict \<Rightarrow> error + user" where
  "User_from_dict parse data =
     (case getitem data ''user_id'' of
        Inl e \<Rightarrow> Inl e
      | Inr uid \<Rightarrow>
     (case getitem data ''username'' of
        Inl e \<Rightarrow> Inl e
      | Inr name \<Rightarrow>
     (case getitem data ''hashed_password'' of
        Inl e \<Rightarrow> Inl e
      | Inr hashed \<Rightarrow>
     (case getitem data ''salt'' of
        Inl e \<Rightarrow> Inl e
      | Inr slt \<Rightarrow>
     (case module_globals ''datetime'' of
        None \<Rightarrow> Inl NameError
      | Some g \<Rightarrow>
     (case getattr g ''datetime'' of
        Inl e \<Rightarrow> Inl e
      | Inr cls \<Rightarrow>
     (case getattr cls ''fromisoformat'' of
        Inl e \<Rightarrow> Inl e
      | Inr f \<Rightarrow>
     (case getitem data ''registration_date'' of
        Inl e \<Rightarrow> Inl e
      | Inr rd \<Rightarrow>
     (case (f, rd) of
        (FromIsoFormat, VStr s) \<Rightarrow>
          (case parse s of
             Inl e \<Rightarrow> Inl e
           | Inr d \<Rightarrow>
               (case (uid, name, hashed, slt) of
                  (VInt i, VStr n, VStr h, VStr t) \<Rightarrow>
                    Inr \<lparr>user_id = i, username = n, hashed_password = h, salt = t,
                         registration_date = d\<rparr>
                | _ \<Rightarrow> Inl TypeError))
      | _ \<Rightarrow> Inl TypeError)))))))))"

section \<open>Evaluating the arithmetic\<close>

lemma floor_rat_numeral: "\<lfloor>(numeral a :: rat) / numeral b\<rfloor> = numeral a div numeral b"
  using floor_divide_of_int_eq [of "numeral a" "numeral b", where ?'a = rat] by simp

lemma ceiling_rat_numeral: "\<lceil>(numeral a :: rat) / numeral b\<rceil> = - (- numeral a div numeral b)"
  using ceiling_divide_eq_div [of "numeral a" "numeral b", where ?'a = rat] by simp

lemmas arith_eval = fl_round_def round_sig_def ilog_def pow_def round_half_even_def Let_def
  digits.simps floor_rat_numeral ceiling_rat_numeral

text \<open>The literals of the source: \<^verbatim>\<open>0.0\<close>, \<^verbatim>\<open>1.0\<close>, \<^verbatim>\<open>0.1\<close>, \<^verbatim>\<open>0.05\<close>.\<close>

lemma fl_repr_0: "fl_repr 0 = 0"
  by (simp add: fl_repr_def round_sig_def fl_round_def)

lemma repr_1: "fl_repr 1 = 1"
  by (simp add: fl_repr_def arith_eval)

lemma float_0_1: "fl_round (1 / 10) = 3602879701896397 / 36028797018963968"
  by (simp add: arith_eval)

lemma float_0_05: "fl_round (1 / 20) = 3602879701896397 / 72057594037927936"
  by (simp add: arith_eval)

lemma repr_0_1: "fl_repr (3602879701896397 / 36028797018963968) = 1 / 10"
  by (simp add: fl_repr_def arith_eval)

lemma repr_0_05: "fl_repr (3602879701896397 / 72057594037927936) = 1 / 20"
  by (simp add: fl_repr_def arith_eval)







section \<open>Properties of Wallet\<close>

subsection \<open>The setter\<close>


text \<open>
  A value that converts is refused when negative and stored otherwise; a refused value
  leaves the wallet as it was.
\<close>

lemma balance_setter_cases:
  "to_decimal v = Inr d \<Longrightarrow>
     balance_setter w v = (if d < 0 then Raised ValueError w else Returned (w\<lparr>balance := d\<rparr>))"
  by (simp add: balance_setter_def)

lemma balance_setter_Returned:
  "balance_setter w v = Returned w' \<Longrightarrow> 0 \<le> balance w' \<and> currency_code w' = currency_code w"
  by (auto simp: balance_setter_def split: sum.splits if_splits)

lemma balance_setter_Raised: "balance_setter w v = Raised e w' \<Longrightarrow> w' = w"
  by (auto simp: balance_setter_def split: sum.splits if_splits)

lemma not_a_number: "decimal_of_str ''abc'' = None"
  by (simp add: decimal_of_str_def strip_def is_space_def split_sign_def is_digit_def)

text \<open>
  Claim C9, at the input \<^verbatim>\<open>w.balance = "abc"\<close>. The conversion
  \<^verbatim>\<open>Decimal("abc")\<close> raises \<^verbatim>\<open>decimal.InvalidOperation\<close>, which the handler of the
  setter does not catch: the assignment fails with that exception and not with the
  \<^verbatim>\<open>ValueError\<close> that the handler was written to raise. The stored balance is unchanged.
\<close>

theorem balance_setter_not_a_number:
  "balance_setter w (VStr ''abc'') = Raised InvalidOperation w"
  by (simp add: balance_setter_def not_a_number)

subsection \<open>Deposits and withdrawals\<close>

lemma deposit_Returned:
  "deposit w a = Returned w' \<Longrightarrow> 0 \<le> balance w' \<and> currency_code w' = currency_code w"
  by (auto simp: deposit_def split: sum.splits if_splits bool.splits dest: balance_setter_Returned)

lemma deposit_Raised: "deposit w a = Raised e w' \<Longrightarrow> w' = w"
  by (auto simp: deposit_def split: sum.splits if_splits bool.splits dest: balance_setter_Raised)

lemma withdraw_Returned:
  "withdraw w a = Returned w' \<Longrightarrow> 0 \<le> balance w' \<and> currency_code w' = currency_code w"
  by (auto simp: withdraw_def split: sum.splits if_splits bool.splits dest: balance_setter_Returned)

lemma withdraw_Raised: "withdraw w a = Raised e w' \<Longrightarrow> w' = w"
  by (auto simp: withdraw_def split: sum.splits if_splits bool.splits dest: balance_setter_Raised)



lemma withdraw_too_much:
  "is_float_or_int a \<Longrightarrow> number a = Some x \<Longrightarrow> balance w < x \<Longrightarrow> withdraw w a = Raised ValueError w"
  by (cases "x \<le> 0") (auto simp: withdraw_def le_zero_def gt_decimal_def)

lemma call_Returned: "call w c = Returned w' \<Longrightarrow> 0 \<le> balance w'"
  by (cases c) (auto dest: deposit_Returned withdraw_Returned)

lemma calls_Returned:
  "calls w cs = Returned w' \<Longrightarrow> 0 \<le> balance w \<or> cs \<noteq> [] \<Longrightarrow> 0 \<le> balance w'"
proof (induction cs arbitrary: w)
  case Nil
  then show ?case by simp
next
  case (Cons c cs)
  from Cons.prems(1) obtain w1 where c: "call w c = Returned w1" and rest: "calls w1 cs = Returned w'"
    by (auto split: outcome.splits)
  from c have "0 \<le> balance w1" by (rule call_Returned)
  with rest show ?case by (intro Cons.IH) auto
qed

text \<open>
  Claim C5, as stated, fails on a wallet that was constructed with a negative balance: the
  constructor stores \<^verbatim>\<open>Decimal(str(balance))\<close> without the check of the setter, so
  \<^verbatim>\<open>Wallet("BTC", -5)\<close> has the balance \<open>- 5\<close>, also after the empty sequence of calls.
\<close>

theorem wallet_constructor_counterexample:
  "Wallet ''BTC'' (VInt (- 5)) = Inr \<lparr>currency_code = ''BTC'', balance = - 5\<rparr>
   \<and> calls \<lparr>currency_code = ''BTC'', balance = - 5\<rparr> [] = Returned \<lparr>currency_code = ''BTC'', balance = - 5\<rparr>
   \<and> balance \<lparr>currency_code = ''BTC'', balance = - 5\<rparr> < 0"
  by (simp add: Wallet_def)

text \<open>
  Claim C5, amended. For every wallet whose balance is not negative to begin with, and for
  every wallet at all once one call has succeeded, the balance is not negative after any
  sequence of successful \<^verbatim>\<open>deposit\<close> and \<^verbatim>\<open>withdraw\<close> calls. Any \<^verbatim>\<open>withdraw\<close> of an
  int or float amount greater than the balance raises \<^verbatim>\<open>ValueError\<close> and leaves the
  wallet unchanged.
\<close>

theorem wallet_balance_never_negative:
  "(calls w cs = Returned w' \<and> (0 \<le> balance w \<or> cs \<noteq> []) \<longrightarrow> 0 \<le> balance w')
   \<and> (is_float_or_int a \<and> number a = Some x \<and> balance v < x \<longrightarrow> withdraw v a = Raised ValueError v)"
  using calls_Returned withdraw_too_much by blast

text \<open>
  The scenario of the specification: \<^verbatim>\<open>Wallet("BTC", 0.05)\<close>, \<^verbatim>\<open>deposit(0.1)\<close>,
  \<^verbatim>\<open>withdraw(0.05)\<close> end with the balance 0.10, and \<^verbatim>\<open>withdraw(1.0)\<close> then fails.
\<close>

lemma scenario_deposit:
  "deposit \<lparr>currency_code = ''BTC'', balance = 1 / 20\<rparr> (VFloat (fl_round (1 / 10)))
     = Returned \<lparr>currency_code = ''BTC'', balance = 3 / 20\<rparr>"
  by (simp add: deposit_def le_zero_def float_0_1 repr_0_1 balance_setter_def dec_add_def)
     (simp add: arith_eval)

lemma scenario_withdraw:
  "withdraw \<lparr>currency_code = ''BTC'', balance = 3 / 20\<rparr> (VFloat (fl_round (1 / 20)))
     = Returned \<lparr>currency_code = ''BTC'', balance = 1 / 10\<rparr>"
  by (simp add: withdraw_def le_zero_def gt_decimal_def float_0_05 repr_0_05 balance_setter_def
        dec_sub_def)
     (simp add: arith_eval)

theorem wallet_balance_witness:
  "Wallet ''BTC'' (VFloat (fl_round (1 / 20))) = Inr \<lparr>currency_code = ''BTC'', balance = 1 / 20\<rparr>
   \<and> calls \<lparr>currency_code = ''BTC'', balance = 1 / 20\<rparr>
        [Deposit (VFloat (fl_round (1 / 10))), Withdraw (VFloat (fl_round (1 / 20)))]
       = Returned \<lparr>currency_code = ''BTC'', balance = 1 / 10\<rparr>
   \<and> 0 \<le> balance \<lparr>currency_code = ''BTC'', balance = 1 / 10\<rparr>
   \<and> withdraw \<lparr>currency_code = ''BTC'', balance = 1 / 10\<rparr> (VFloat 1)
       = Raised ValueError \<lparr>currency_code = ''BTC'', balance = 1 / 10\<rparr>"
proof -
  have init: "Wallet ''BTC'' (VFloat (fl_round (1 / 20))) = Inr \<lparr>currency_code = ''BTC'', balance = 1 / 20\<rparr>"
    by (simp add: Wallet_def float_0_05 repr_0_05)
  have run: "calls \<lparr>currency_code = ''BTC'', balance = 1 / 20\<rparr>
        [Deposit (VFloat (fl_round (1 / 10))), Withdraw (VFloat (fl_round (1 / 20)))]
       = Returned \<lparr>currency_code = ''BTC'', balance = 1 / 10\<rparr>"
    by (simp add: scenario_deposit scenario_withdraw)
  show ?thesis
    using init run
      wallet_balance_never_negative [of "\<lparr>currency_code = ''BTC'', balance = 1 / 20\<rparr>"
        "[Deposit (VFloat (fl_round (1 / 10))), Withdraw (VFloat (fl_round (1 / 20)))]"
        "\<lparr>currency_code = ''BTC'', balance = 1 / 10\<rparr>" "VFloat 1" 1
        "\<lparr>currency_code = ''BTC'', balance = 1 / 10\<rparr>"]
    by simp
qed

subsection \<open>Serialisation\<close>

text \<open>
  A wallet read back from its dictionary has the same code; its balance has gone through
  \<^verbatim>\<open>float\<close> and back (the second half of claim C6).
\<close>

lemma Wallet_round_trip:
  "Wallet_from_dict (Wallet_to_dict w)
     = Inr \<lparr>currency_code = currency_code w, balance = fl_repr (fl_round (balance w))\<rparr>"
  by (simp add: Wallet_from_dict_def Wallet_to_dict_def getitem_def Wallet_def)

section \<open>Properties of Portfolio\<close>

subsection \<open>Association lists\<close>

lemma update_fresh: "map_of al k = None \<Longrightarrow> AList.update k v al = al @ [(k, v)]"
  by (induction al) (auto split: if_splits)

lemma list_all_update:
  "list_all P al \<Longrightarrow> P (k, v) \<Longrightarrow> list_all P (AList.update k v al)"
  by (induction al) auto

lemma no_entry: "map_of al k = None \<Longrightarrow> filter (\<lambda>(k', v). k' = k) al = []"
  by (induction al) (auto split: if_splits)

lemma get_wallet_put_wallet:
  "get_wallet (put_wallet p c w) k = (if k = c then Some w else get_wallet p k)"
  by (simp add: get_wallet_def put_wallet_def update_conv')

lemma put_wallet_same: "get_wallet p c = Some w \<Longrightarrow> put_wallet p c w = p"
  by (simp add: get_wallet_def put_wallet_def update_triv)

lemma portfolio_ok_wallet:
  assumes "portfolio_ok p" and "get_wallet p c = Some w"
  shows "currency_code w = c \<and> map_of EXCHANGE_RATES c \<noteq> None \<and> 0 \<le> balance w"
proof -
  from assms(2) have "(c, w) \<in> set (wallets p)"
    by (simp add: get_wallet_def map_of_SomeD)
  with assms(1) show ?thesis
    by (auto simp: portfolio_ok_def list_all_iff)
qed

subsection \<open>Adding a currency\<close>

lemma Wallet_default: "Wallet code (VFloat 0) = Inr \<lparr>currency_code = code, balance = 0\<rparr>"
  by (simp add: Wallet_def fl_repr_0)

lemma add_currency_new:
  assumes "get_wallet p code = None" and "map_of EXCHANGE_RATES code \<noteq> None"
  shows "add_currency p code =
           Returned (p\<lparr>wallets := wallets p @ [(code, \<lparr>currency_code = code, balance = 0\<rparr>)]\<rparr>)"
  using assms
  by (simp add: add_currency_def get_wallet_def Wallet_default put_wallet_def update_fresh)

lemma add_currency_Raised: "add_currency p code = Raised e p' \<Longrightarrow> p' = p \<and> e = ValueError"
  by (auto simp: add_currency_def Wallet_default split: if_splits)

text \<open>
  Claim C8. \<^verbatim>\<open>add_currency(code)\<close> raises \<^verbatim>\<open>ValueError\<close>, leaving the portfolio as it
  was, when a wallet for \<open>code\<close> exists already, and when \<open>code\<close> is not a key of the rate
  table. Otherwise it returns, and the wallets are the old ones followed by one new wallet
  for \<open>code\<close> with balance 0; a second call with the same code then raises
  \<^verbatim>\<open>ValueError\<close>, and the portfolio still holds exactly that one wallet for \<open>code\<close>.
\<close>

theorem add_currency_adds_one_wallet:
  "(get_wallet p code \<noteq> None \<longrightarrow> add_currency p code = Raised ValueError p)
   \<and> (map_of EXCHANGE_RATES code = None \<longrightarrow> add_currency p code = Raised ValueError p)
   \<and> (get_wallet p code = None \<and> map_of EXCHANGE_RATES code \<noteq> None \<longrightarrow>
        (let p1 = p\<lparr>wallets := wallets p @ [(code, \<lparr>currency_code = code, balance = 0\<rparr>)]\<rparr>
         in add_currency p code = Returned p1
            \<and> add_currency p1 code = Raised ValueError p1
            \<and> filter (\<lambda>(k, w). k = code) (wallets p1) = [(code, \<lparr>currency_code = code, balance = 0\<rparr>)]))"
proof (intro conjI impI)
  assume "get_wallet p code \<noteq> None"
  then show "add_currency p code = Raised ValueError p"
    by (simp add: add_currency_def get_wallet_def)
next
  assume "map_of EXCHANGE_RATES code = None"
  then show "add_currency p code = Raised ValueError p"
    by (simp add: add_currency_def)
next
  assume a: "get_wallet p code = None \<and> map_of EXCHANGE_RATES code \<noteq> None"
  define p1 where "p1 = p\<lparr>wallets := wallets p @ [(code, \<lparr>currency_code = code, balance = 0\<rparr>)]\<rparr>"
  from a have 1: "add_currency p code = Returned p1"
    by (simp add: add_currency_new p1_def)
  have "get_wallet p1 code \<noteq> None"
    by (simp add: get_wallet_def p1_def map_add_def split: option.splits)
  then have 2: "add_currency p1 code = Raised ValueError p1"
    by (simp add: add_currency_def get_wallet_def)
  from a have 3: "filter (\<lambda>(k, w). k = code) (wallets p1) = [(code, \<lparr>currency_code = code, balance = 0\<rparr>)]"
    by (simp add: p1_def get_wallet_def no_entry)
  from 1 2 3 show "let p1 = p\<lparr>wallets := wallets p @ [(code, \<lparr>currency_code = code, balance = 0\<rparr>)]\<rparr>
         in add_currency p code = Returned p1
            \<and> add_currency p1 code = Raised ValueError p1
            \<and> filter (\<lambda>(k, w). k = code) (wallets p1) = [(code, \<lparr>currency_code = code, balance = 0\<rparr>)]"
    by (simp add: p1_def Let_def)
qed

lemma known_USD: "map_of EXCHANGE_RATES ''USD'' \<noteq> None"
  by (simp add: EXCHANGE_RATES_def)

text \<open>On the empty portfolio: \<^verbatim>\<open>USD\<close> is added once, \<^verbatim>\<open>GBP\<close> is not in the table.\<close>

theorem add_currency_witness:
  "add_currency (Portfolio 1) ''USD''
     = Returned \<lparr>owner_id = 1, wallets = [(''USD'', \<lparr>currency_code = ''USD'', balance = 0\<rparr>)]\<rparr>
   \<and> add_currency \<lparr>owner_id = 1, wallets = [(''USD'', \<lparr>currency_code = ''USD'', balance = 0\<rparr>)]\<rparr> ''USD''
     = Raised ValueError \<lparr>owner_id = 1, wallets = [(''USD'', \<lparr>currency_code = ''USD'', balance = 0\<rparr>)]\<rparr>
   \<and> add_currency (Portfolio 1) ''GBP'' = Raised ValueError (Portfolio 1)"
  using add_currency_adds_one_wallet [of "Portfolio 1" "''USD''"]
    add_currency_adds_one_wallet [of "Portfolio 1" "''GBP''"] known_USD
  by (simp add: Portfolio_def get_wallet_def Let_def EXCHANGE_RATES_def)

subsection \<open>The total value\<close>

lemma total_loop_TypeError:
  assumes "map_of EXCHANGE_RATES base \<noteq> None"
    and "\<exists>w \<in> set ws. map_of EXCHANGE_RATES (currency_code w) \<noteq> None"
  shows "total_loop base t ws = Inl TypeError"
  using assms by (induction ws arbitrary: t) (auto split: option.splits)

lemma total_loop_skips:
  assumes "\<forall>w \<in> set ws. map_of EXCHANGE_RATES (currency_code w) = None"
  shows "total_loop base t ws = Inr t"
  using assms by (induction ws arbitrary: t) (auto split: option.splits)

text \<open>
  All that \<^verbatim>\<open>get_total_value\<close> does: \<^verbatim>\<open>ValueError\<close> for an unknown base currency;
  \<^verbatim>\<open>TypeError\<close> as soon as one wallet has a currency of the rate table, whatever the
  balances; \<open>0.0\<close> otherwise, which includes the empty portfolio.
\<close>

lemma get_total_value_cases:
  "get_total_value p base =
     (if map_of EXCHANGE_RATES base = None then Inl ValueError
      else if \<exists>w \<in> set (map snd (wallets p)). map_of EXCHANGE_RATES (currency_code w) \<noteq> None
           then Inl TypeError
      else Inr 0)"
  by (auto simp: get_total_value_def total_loop_TypeError total_loop_skips simp del: set_map)

text \<open>
  Claim C1, at the portfolio that \<^verbatim>\<open>add_currency("USD")\<close> makes of the empty one. The
  claim gives the sum \<open>0 * 1.0 / 1.0 = 0\<close>; the method raises \<^verbatim>\<open>TypeError\<close>, because the
  balance is a Decimal and the rate a float.
\<close>

theorem get_total_value_of_one_wallet:
  "add_currency (Portfolio 1) ''USD''
     = Returned \<lparr>owner_id = 1, wallets = [(''USD'', \<lparr>currency_code = ''USD'', balance = 0\<rparr>)]\<rparr>
   \<and> get_total_value \<lparr>owner_id = 1, wallets = [(''USD'', \<lparr>currency_code = ''USD'', balance = 0\<rparr>)]\<rparr> ''USD''
     = Inl TypeError"
  by (simp add: add_currency_new get_wallet_def Portfolio_def get_total_value_def EXCHANGE_RATES_def)

subsection \<open>The rates and the conversions of the scenarios\<close>

lemma rate_USD: "rate ''USD'' = Inr 1"
  by (simp add: rate_def EXCHANGE_RATES_def arith_eval)

lemma rate_EUR: "rate ''EUR'' = Inr (2476979795053773 / 2251799813685248)"
  by (simp add: rate_def EXCHANGE_RATES_def arith_eval)

lemma rate_known: "map_of EXCHANGE_RATES c \<noteq> None \<Longrightarrow> \<exists>r. rate c = Inr r"
  by (auto simp: rate_def)





text \<open>\<^verbatim>\<open>float(10 ** 309)\<close> raises \<^verbatim>\<open>OverflowError\<close>.\<close>

lemma float_of_int_overflow: "float_of_int (10 ^ 309) = Inl OverflowError"
  by (simp add: float_of_int_def fl_finite_def arith_eval)

subsection \<open>Buying\<close>

lemma le_zero_number: "number amount = Some a \<Longrightarrow> le_zero amount = Inr (a \<le> 0)"
  by (simp add: le_zero_def)

lemma withdraw_everything:
  "0 < n \<Longrightarrow> withdraw \<lparr>currency_code = c, balance = of_int n\<rparr> (VInt n)
     = Returned \<lparr>currency_code = c, balance = 0\<rparr>"
  by (simp add: withdraw_def le_zero_def gt_decimal_def balance_setter_def dec_sub_def round_sig_def)

text \<open>
  An int amount too large for a float: the withdrawal has been done when the product
  \<^verbatim>\<open>amount * from_rate\<close> raises \<^verbatim>\<open>OverflowError\<close>.
\<close>

lemma buy_currency_overflow:
  assumes "float_of_int n = Inl OverflowError" and "0 < n"
  shows "buy_currency \<lparr>owner_id = 1, wallets = [(''USD'', \<lparr>currency_code = ''USD'', balance = of_int n\<rparr>),
        (''EUR'', \<lparr>currency_code = ''EUR'', balance = 0\<rparr>)]\<rparr> (VInt n) ''USD'' ''EUR''
     = Raised OverflowError \<lparr>owner_id = 1, wallets = [(''USD'', \<lparr>currency_code = ''USD'', balance = 0\<rparr>),
        (''EUR'', \<lparr>currency_code = ''EUR'', balance = 0\<rparr>)]\<rparr>"
  using assms
  by (simp add: buy_currency_def le_zero_def get_wallet_def withdraw_everything rate_USD rate_EUR
        convert_def put_wallet_def)









subsection \<open>Selling\<close>






subsection \<open>Failed operations\<close>

lemma buy_currency_not_positive:
  "number amount = Some a \<Longrightarrow> a \<le> 0 \<Longrightarrow> buy_currency p amount f t = Raised ValueError p"
  by (simp add: buy_currency_def le_zero_number)

lemma sell_currency_not_positive:
  "number amount = Some a \<Longrightarrow> a \<le> 0 \<Longrightarrow> sell_currency p amount f t = Raised ValueError p"
  by (simp add: sell_currency_def le_zero_number)

lemma buy_currency_no_wallet:
  "number amount = Some a \<Longrightarrow> get_wallet p f = None \<or> get_wallet p t = None \<Longrightarrow>
     buy_currency p amount f t = Raised ValueError p"
  by (cases "a \<le> 0") (auto simp: buy_currency_def le_zero_number split: option.splits)

lemma sell_currency_no_wallet:
  "number amount = Some a \<Longrightarrow> get_wallet p f = None \<or> get_wallet p t = None \<Longrightarrow>
     sell_currency p amount f t = Raised ValueError p"
  by (cases "a \<le> 0") (auto simp: sell_currency_def le_zero_number split: option.splits)

lemma buy_currency_insufficient:
  assumes "is_float_or_int amount" and "number amount = Some a"
    and "get_wallet p f = Some fw" and "balance fw < a"
  shows "buy_currency p amount f t = Raised ValueError p"
proof (cases "a \<le> 0 \<or> get_wallet p t = None")
  case True
  with assms show ?thesis
    by (auto simp: buy_currency_not_positive buy_currency_no_wallet)
next
  case False
  then obtain tw where "get_wallet p t = Some tw" and "0 < a" by auto
  with assms show ?thesis
    by (simp add: buy_currency_def le_zero_number withdraw_too_much put_wallet_same)
qed

lemma sell_currency_insufficient:
  assumes "number amount = Some a" and "get_wallet p f = Some fw" and "balance fw < a"
  shows "sell_currency p amount f t = Raised ValueError p"
proof (cases "a \<le> 0 \<or> get_wallet p t = None")
  case True
  with assms show ?thesis
    by (auto simp: sell_currency_not_positive sell_currency_no_wallet)
next
  case False
  then obtain tw where "get_wallet p t = Some tw" and "0 < a" by auto
  with assms show ?thesis
    by (simp add: sell_currency_def le_zero_number gt_decimal_def)
qed

lemma sell_currency_Raised:
  assumes "portfolio_ok p" and "sell_currency p amount f t = Raised e p'"
  shows "p' = p"
proof (cases "get_wallet p f")
  case None
  with assms(2) show ?thesis
    by (auto simp: sell_currency_def split: sum.splits bool.splits option.splits)
next
  case (Some fw)
  from portfolio_ok_wallet [OF assms(1) Some] have "map_of EXCHANGE_RATES f \<noteq> None"
    by simp
  then obtain r where "rate f = Inr r"
    using rate_known by blast
  with Some assms(2) show ?thesis
    by (auto simp: sell_currency_def Let_def put_wallet_same
          split: sum.splits bool.splits option.splits outcome.splits dest: withdraw_Raised)
qed

lemma buy_currency_Raised:
  assumes "buy_currency p amount f t = Raised e p'"
  shows "p' = p \<or> (\<exists>fw w. get_wallet p f = Some fw \<and> withdraw fw amount = Returned w
                      \<and> p' = put_wallet p f w)"
proof (cases "get_wallet p f")
  case None
  with assms show ?thesis
    by (auto simp: buy_currency_def split: sum.splits bool.splits option.splits)
next
  case (Some fw)
  show ?thesis
  proof (cases "withdraw fw amount")
    case (Raised e' w)
    then have "w = fw" by (rule withdraw_Raised)
    with Some Raised assms show ?thesis
      by (auto simp: buy_currency_def put_wallet_same split: sum.splits bool.splits option.splits)
  next
    case (Returned w)
    have same: "put_wallet (put_wallet p f w) t w2 = put_wallet p f w"
      if "deposit (if t = f then w else tw) (VFloat c) = Raised e' w2" and "get_wallet p t = Some tw"
      for tw c e' w2
    proof -
      from that(1) have "w2 = (if t = f then w else tw)" by (rule deposit_Raised)
      with that(2) show ?thesis
        by (intro put_wallet_same) (simp add: get_wallet_put_wallet)
    qed
    from Some Returned assms show ?thesis
      by (auto simp: buy_currency_def Let_def same
            split: sum.splits bool.splits option.splits outcome.splits)
  qed
qed

text \<open>
  Claim C4, as stated, fails for \<^verbatim>\<open>buy_currency\<close>: a call that fails after its
  withdrawal leaves the source wallet debited. With the wallets
  \<^verbatim>\<open>{USD: 10 ** 309, EUR: 0}\<close>, \<^verbatim>\<open>buy_currency(10 ** 309, "USD", "EUR")\<close> withdraws the
  amount and then raises \<^verbatim>\<open>OverflowError\<close> on \<^verbatim>\<open>amount * from_rate\<close>: the USD wallet is
  left empty and the EUR wallet has received nothing.
\<close>

theorem failed_buy_currency_counterexample:
  "buy_currency \<lparr>owner_id = 1, wallets = [(''USD'', \<lparr>currency_code = ''USD'', balance = 10 ^ 309\<rparr>),
        (''EUR'', \<lparr>currency_code = ''EUR'', balance = 0\<rparr>)]\<rparr> (VInt (10 ^ 309)) ''USD'' ''EUR''
     = Raised OverflowError \<lparr>owner_id = 1, wallets = [(''USD'', \<lparr>currency_code = ''USD'', balance = 0\<rparr>),
        (''EUR'', \<lparr>currency_code = ''EUR'', balance = 0\<rparr>)]\<rparr>
   \<and> \<lparr>owner_id = 1, wallets = [(''USD'', \<lparr>currency_code = ''USD'', balance = 0\<rparr>),
        (''EUR'', \<lparr>currency_code = ''EUR'', balance = 0\<rparr>)]\<rparr>
     \<noteq> \<lparr>owner_id = (1::int), wallets = [(''USD'', \<lparr>currency_code = ''USD'', balance = 10 ^ 309\<rparr>),
        (''EUR'', \<lparr>currency_code = ''EUR'', balance = 0\<rparr>)]\<rparr>"
  using buy_currency_overflow [OF float_of_int_overflow] by simp

text \<open>
  Claim C4, amended. \<^verbatim>\<open>buy_currency\<close> and \<^verbatim>\<open>sell_currency\<close> called with a numeric
  amount that is not positive, or with either wallet absent, or (the amount an int or a
  float) with an amount above the balance of the source wallet, raise \<^verbatim>\<open>ValueError\<close>
  and leave the portfolio as it was. A failed \<^verbatim>\<open>add_currency\<close> leaves the portfolio as it
  was, and so does every failed \<^verbatim>\<open>sell_currency\<close> on a portfolio that the methods have
  built. A failed \<^verbatim>\<open>buy_currency\<close> leaves the portfolio either as it was or with the
  withdrawal from the source wallet done and nothing else.
\<close>

theorem failed_operations_change_nothing:
  "(number amount = Some a \<and> a \<le> 0 \<longrightarrow>
      buy_currency p amount f t = Raised ValueError p \<and> sell_currency p amount f t = Raised ValueError p)
   \<and> (number amount = Some a \<and> (get_wallet p f = None \<or> get_wallet p t = None) \<longrightarrow>
      buy_currency p amount f t = Raised ValueError p \<and> sell_currency p amount f t = Raised ValueError p)
   \<and> (is_float_or_int amount \<and> number amount = Some a \<and> get_wallet p f = Some fw \<and> balance fw < a \<longrightarrow>
      buy_currency p amount f t = Raised ValueError p \<and> sell_currency p amount f t = Raised ValueError p)
   \<and> (add_currency p code = Raised e p' \<longrightarrow> p' = p)
   \<and> (portfolio_ok p \<and> sell_currency p amount f t = Raised e p' \<longrightarrow> p' = p)
   \<and> (buy_currency p amount f t = Raised e p' \<longrightarrow>
        p' = p \<or> (\<exists>fw w. get_wallet p f = Some fw \<and> withdraw fw amount = Returned w
                     \<and> p' = put_wallet p f w))"
proof (intro conjI impI)
  assume "number amount = Some a \<and> a \<le> 0"
  then show "buy_currency p amount f t = Raised ValueError p"
    and "sell_currency p amount f t = Raised ValueError p"
    by (simp_all add: buy_currency_not_positive sell_currency_not_positive)
next
  assume "number amount = Some a \<and> (get_wallet p f = None \<or> get_wallet p t = None)"
  then show "buy_currency p amount f t = Raised ValueError p"
    and "sell_currency p amount f t = Raised ValueError p"
    using buy_currency_no_wallet sell_currency_no_wallet by blast+
next
  assume "is_float_or_int amount \<and> number amount = Some a \<and> get_wallet p f = Some fw \<and> balance fw < a"
  then show "buy_currency p amount f t = Raised ValueError p"
    and "sell_currency p amount f t = Raised ValueError p"
    using buy_currency_insufficient sell_currency_insufficient by blast+
next
  assume "add_currency p code = Raised e p'"
  then show "p' = p" by (simp add: add_currency_Raised)
next
  assume "portfolio_ok p \<and> sell_currency p amount f t = Raised e p'"
  then show "p' = p" using sell_currency_Raised by blast
next
  assume "buy_currency p amount f t = Raised e p'"
  then show "p' = p \<or> (\<exists>fw w. get_wallet p f = Some fw \<and> withdraw fw amount = Returned w
                     \<and> p' = put_wallet p f w)"
    by (rule buy_currency_Raised)
qed

text \<open>
  With the wallets \<^verbatim>\<open>{USD: 100, EUR: 0}\<close>: an amount of 0, a missing wallet (\<^verbatim>\<open>GBP\<close>),
  an amount of 500, a currency that is there already.
\<close>

theorem failed_operations_witness:
  "buy_currency \<lparr>owner_id = 1, wallets = [(''USD'', \<lparr>currency_code = ''USD'', balance = 100\<rparr>),
        (''EUR'', \<lparr>currency_code = ''EUR'', balance = 0\<rparr>)]\<rparr> (VInt 0) ''USD'' ''EUR''
     = Raised ValueError \<lparr>owner_id = 1, wallets = [(''USD'', \<lparr>currency_code = ''USD'', balance = 100\<rparr>),
        (''EUR'', \<lparr>currency_code = ''EUR'', balance = 0\<rparr>)]\<rparr>
   \<and> sell_currency \<lparr>owner_id = 1, wallets = [(''USD'', \<lparr>currency_code = ''USD'', balance = 100\<rparr>),
        (''EUR'', \<lparr>currency_code = ''EUR'', balance = 0\<rparr>)]\<rparr> (VInt 50) ''GBP'' ''EUR''
     = Raised ValueError \<lparr>owner_id = 1, wallets = [(''USD'', \<lparr>currency_code = ''USD'', balance = 100\<rparr>),
        (''EUR'', \<lparr>currency_code = ''EUR'', balance = 0\<rparr>)]\<rparr>
   \<and> buy_currency \<lparr>owner_id = 1, wallets = [(''USD'', \<lparr>currency_code = ''USD'', balance = 100\<rparr>),
        (''EUR'', \<lparr>currency_code = ''EUR'', balance = 0\<rparr>)]\<rparr> (VInt 500) ''USD'' ''EUR''
     = Raised ValueError \<lparr>owner_id = 1, wallets = [(''USD'', \<lparr>currency_code = ''USD'', balance = 100\<rparr>),
        (''EUR'', \<lparr>currency_code = ''EUR'', balance = 0\<rparr>)]\<rparr>
   \<and> sell_currency \<lparr>owner_id = 1, wallets = [(''USD'', \<lparr>currency_code = ''USD'', balance = 100\<rparr>),
        (''EUR'', \<lparr>currency_code = ''EUR'', balance = 0\<rparr>)]\<rparr> (VInt 500) ''USD'' ''EUR''
     = Raised ValueError \<lparr>owner_id = 1, wallets = [(''USD'', \<lparr>currency_code = ''USD'', balance = 100\<rparr>),
        (''EUR'', \<lparr>currency_code = ''EUR'', balance = 0\<rparr>)]\<rparr>
   \<and> add_currency \<lparr>owner_id = 1, wallets = [(''USD'', \<lparr>currency_code = ''USD'', balance = 100\<rparr>),
        (''EUR'', \<lparr>currency_code = ''EUR'', balance = 0\<rparr>)]\<rparr> ''EUR''
     = Raised ValueError \<lparr>owner_id = 1, wallets = [(''USD'', \<lparr>currency_code = ''USD'', balance = 100\<rparr>),
        (''EUR'', \<lparr>currency_code = ''EUR'', balance = 0\<rparr>)]\<rparr>"
  using
    failed_operations_change_nothing [where amount = "VInt 0" and a = 0 and f = "''USD''" and t = "''EUR''"
      and p = "\<lparr>owner_id = 1, wallets = [(''USD'', \<lparr>currency_code = ''USD'', balance = 100\<rparr>),
        (''EUR'', \<lparr>currency_code = ''EUR'', balance = 0\<rparr>)]\<rparr>"]
    failed_operations_change_nothing [where amount = "VInt 50" and a = 50 and f = "''GBP''" and t = "''EUR''"
      and p = "\<lparr>owner_id = 1, wallets = [(''USD'', \<lparr>currency_code = ''USD'', balance = 100\<rparr>),
        (''EUR'', \<lparr>currency_code = ''EUR'', balance = 0\<rparr>)]\<rparr>"]
    failed_operations_change_nothing [where amount = "VInt 500" and a = 500 and f = "''USD''" and t = "''EUR''"
      and fw = "\<lparr>currency_code = ''USD'', balance = 100\<rparr>"
      and p = "\<lparr>owner_id = 1, wallets = [(''USD'', \<lparr>currency_code = ''USD'', balance = 100\<rparr>),
        (''EUR'', \<lparr>currency_code = ''EUR'', balance = 0\<rparr>)]\<rparr>"]
  by (simp add: get_wallet_def add_currency_def)

subsection \<open>The invariant of the portfolio\<close>

text \<open>
  \<open>portfolio_ok\<close> holds of the empty portfolio and the three mutating methods keep it,
  whether they return or raise: it holds of every portfolio that the methods have built.
\<close>

lemma portfolio_ok_empty: "portfolio_ok (Portfolio uid)"
  by (simp add: portfolio_ok_def Portfolio_def)

lemma portfolio_ok_put_wallet:
  assumes "portfolio_ok p" and "get_wallet p c = Some w0"
    and "currency_code w = c" and "0 \<le> balance w"
  shows "portfolio_ok (put_wallet p c w)"
proof -
  from portfolio_ok_wallet [OF assms(1,2)] have "map_of EXCHANGE_RATES c \<noteq> None"
    by simp
  with assms show ?thesis
    by (simp add: portfolio_ok_def put_wallet_def distinct_update list_all_update)
qed

lemma add_currency_ok: "portfolio_ok p \<Longrightarrow> portfolio_ok (state_of (add_currency p code))"
  by (auto simp: add_currency_def Wallet_default put_wallet_def portfolio_ok_def distinct_update
        list_all_update)

lemma sell_currency_ok:
  assumes "portfolio_ok p"
  shows "portfolio_ok (state_of (sell_currency p amount f t))"
proof (cases "sell_currency p amount f t")
  case (Raised e p')
  with assms show ?thesis by (simp add: sell_currency_Raised [OF assms Raised])
next
  case (Returned p')
  then obtain fw w where fw: "get_wallet p f = Some fw"
    and w: "withdraw fw amount = Returned w" and p': "p' = put_wallet p f w"
    by (auto simp: sell_currency_def Let_def split: sum.splits bool.splits option.splits outcome.splits)
  from withdraw_Returned [OF w] portfolio_ok_wallet [OF assms fw]
  have "currency_code w = f" and "0 \<le> balance w" by simp_all
  with assms fw Returned p' show ?thesis
    by (simp add: portfolio_ok_put_wallet)
qed

lemma buy_currency_ok:
  assumes "portfolio_ok p"
  shows "portfolio_ok (state_of (buy_currency p amount f t))"
proof (cases "buy_currency p amount f t")
  case (Raised e p')
  from buy_currency_Raised [OF Raised] show ?thesis
  proof
    assume "p' = p"
    with assms Raised show ?thesis by simp
  next
    assume "\<exists>fw w. get_wallet p f = Some fw \<and> withdraw fw amount = Returned w \<and> p' = put_wallet p f w"
    then obtain fw w where fw: "get_wallet p f = Some fw"
      and w: "withdraw fw amount = Returned w" and p': "p' = put_wallet p f w"
      by blast
    from withdraw_Returned [OF w] portfolio_ok_wallet [OF assms fw]
    have "currency_code w = f" and "0 \<le> balance w" by simp_all
    with assms fw Raised p' show ?thesis
      by (simp add: portfolio_ok_put_wallet)
  qed
next
  case (Returned p')
  then obtain fw tw w w2 c where fw: "get_wallet p f = Some fw" and tw: "get_wallet p t = Some tw"
    and w: "withdraw fw amount = Returned w"
    and w2: "deposit (if t = f then w else tw) (VFloat c) = Returned w2"
    and p': "p' = put_wallet (put_wallet p f w) t w2"
    by (auto simp: buy_currency_def Let_def split: sum.splits bool.splits option.splits outcome.splits)
  from withdraw_Returned [OF w] portfolio_ok_wallet [OF assms fw]
  have 1: "currency_code w = f" "0 \<le> balance w" by simp_all
  with assms fw have ok1: "portfolio_ok (put_wallet p f w)"
    by (simp add: portfolio_ok_put_wallet)
  have now: "get_wallet (put_wallet p f w) t = Some (if t = f then w else tw)"
    using tw by (simp add: get_wallet_put_wallet)
  from deposit_Returned [OF w2] portfolio_ok_wallet [OF assms tw] 1
  have "currency_code w2 = t" and "0 \<le> balance w2" by (simp_all split: if_splits)
  with ok1 now have "portfolio_ok p'"
    unfolding p' by (rule portfolio_ok_put_wallet)
  with Returned show ?thesis by simp
qed

section \<open>Properties of User\<close>

text \<open>The ISO format of a timestamp.\<close>

lemma zero_padded_2: "zero_padded 2 n = [digit_char (n div 10), digit_char n]"
  by (simp add: numeral_2_eq_2)

lemma zero_padded_4:
  "zero_padded 4 n = [digit_char (n div 10 div 10 div 10), digit_char (n div 10 div 10), digit_char (n div 10), digit_char n]"
proof -
  have "(4::nat) = Suc (Suc (Suc (Suc 0)))" by simp
  then show ?thesis by (simp only: zero_padded.simps append.simps)
qed

lemma isoformat_example:
  "isoformat \<lparr>year = 2024, month = 1, day = 2, hour = 3, minute = 4, second = 5, microsecond = 0\<rparr>
     = ''2024-01-02T03:04:05''"
  by (simp add: isoformat_def zero_padded_2 zero_padded_4 digit_char_def)

text \<open>
  Claim C10. For every User, \<^verbatim>\<open>get_user_info()\<close> returns exactly the identifier, the
  username and the registration timestamp in ISO format, under the keys \<^verbatim>\<open>user_id\<close>,
  \<^verbatim>\<open>username\<close> and \<^verbatim>\<open>registration_date\<close>, and no other entry; the result does not
  depend on the stored hash or the salt: replacing both by any other values leaves the result
  equal.
\<close>

theorem get_user_info_hides_credentials:
  "get_user_info u =
     [(''user_id'', VInt (user_id u)), (''username'', VStr (username u)),
      (''registration_date'', VStr (isoformat (registration_date u)))]
   \<and> map fst (get_user_info u) = [''user_id'', ''username'', ''registration_date'']
   \<and> get_user_info (u\<lparr>hashed_password := h, salt := s\<rparr>) = get_user_info u"
  by (simp add: get_user_info_def)

lemma global_datetime: "module_globals ''datetime'' = Some DatetimeClass"
  by (simp add: module_globals_def module_imports_def)

text \<open>
  Claim C6, at any user \<open>u\<close>. The dictionary of \<^verbatim>\<open>to_dict\<close> has the five keys, so the
  four lookups succeed; then \<^verbatim>\<open>datetime.datetime\<close> is evaluated with the global name
  \<^verbatim>\<open>datetime\<close> bound to the class (line 8 rebinds what line 2 bound to the module), and
  the class has no attribute \<^verbatim>\<open>datetime\<close>: \<^verbatim>\<open>from_dict\<close> raises \<^verbatim>\<open>AttributeError\<close>
  and builds no user, whatever \<^verbatim>\<open>fromisoformat\<close> would do.
\<close>

theorem User_from_dict_raises:
  "User_from_dict parse (User_to_dict u) = Inl AttributeError"
  by (simp add: User_from_dict_def User_to_dict_def getitem_def global_datetime getattr_def)


text \<open>
  Towards claim C7, for any digest function: \<^verbatim>\<open>change_password\<close> with a password of
  four characters or more stores the digest of the password and the salt, and
  \<^verbatim>\<open>verify_password\<close> then accepts that password. It is a comparison of two strings: it
  changes nothing and raises nothing. It rejects the password followed by \<^verbatim>\<open>x\<close> exactly
  when the two digests differ, which is a property of SHA-256 and not of this code.
\<close>

lemma verify_password_after_change:
  assumes "4 \<le> length p"
  shows "change_password sha256 u p = Returned (u\<lparr>hashed_password := sha256 (utf8 p @ utf8 (salt u))\<rparr>)"
    and "verify_password sha256 (u\<lparr>hashed_password := sha256 (utf8 p @ utf8 (salt u))\<rparr>) p"
    and "verify_password sha256 (u\<lparr>hashed_password := sha256 (utf8 p @ utf8 (salt u))\<rparr>) (p @ ''x'')
           \<longleftrightarrow> sha256 (utf8 (p @ ''x'') @ utf8 (salt u)) = sha256 (utf8 p @ utf8 (salt u))"
  using assms by (simp_all add: change_password_def verify_password_def hash_password_def)


end
